theory Spec2Isabelle
  imports Complex_Main
begin

section \<open>Data model\<close>

text \<open>
  The game is one React component. Its simulation state lives in React state cells
  (\<open>gameState\<close>, \<open>score\<close>, \<open>leaderboard\<close>, \<open>dimensions\<close>) and in mutable refs
  (\<open>birdRef\<close>, \<open>pipesRef\<close>, \<open>frameCountRef\<close>, \<open>scoreRef\<close>); the leaderboard is
  one \<open>localStorage\<close> item. All of it is collected in the record \<open>app\<close> below and passed
  explicitly; the state cell \<open>score\<close> is the field \<open>scoreSt\<close>, since \<open>score\<close> is also the
  name of a field of a leaderboard entry.

  JavaScript numbers are modelled as \<open>real\<close> where the code computes fractions (the bird,
  the random gap top) and as \<open>int\<close>/\<open>nat\<close> where it only ever holds integers (pixels of
  the pipes, counters, scores). The bird's position and velocity are multiples of 1/2 far
  below \<open>2^53\<close>, so the doubles of the source carry them exactly; the product with
  \<open>Math.random()\<close> is taken exactly here and floored at once, as in the source.
\<close>

record dims =
  width :: int
  height :: int

record bird =
  y :: real
  velocity :: real
  rotation :: real

record pipe =
  x :: int
  topHeight :: int
  passed :: bool

datatype mode = Ready | Playing | Gameover

text \<open>A leaderboard entry \<open>{score, date, id}\<close>; the field \<open>id\<close> is called \<open>ident\<close> here.\<close>

record entry =
  score :: int
  date :: string
  ident :: int

text \<open>
  What \<open>localStorage.getItem('flappyLeaderboard')\<close> holds, by the cases the code can tell
  apart: no item (\<open>null\<close>), the empty string, a non-empty string that \<open>JSON.parse\<close>
  rejects, and a string that \<open>JSON.parse\<close> reads as an array of entries (the only thing
  \<open>saveScore\<close> ever writes). Valid JSON of another shape is outside this model.
\<close>

datatype item = NoItem | EmptyString | Malformed | Encoded "entry list"

datatype error = SyntaxError

record app =
  gameState :: mode
  scoreSt :: int
  leaderboard :: "entry list"
  dimensions :: dims
  birdRef :: bird
  pipesRef :: "pipe list"
  frameCountRef :: nat
  scoreRef :: int
  storage :: item

section \<open>Constants\<close>

definition getGameDimensions :: "int \<Rightarrow> dims" where
  "getGameDimensions innerWidth =
     (if innerWidth \<ge> 1440 then \<lparr>width = 800, height = 900\<rparr>
      else if innerWidth \<ge> 1024 then \<lparr>width = 600, height = 800\<rparr>
      else \<lparr>width = 400, height = 600\<rparr>)"

definition BIRD_SIZE :: real where "BIRD_SIZE = 34"
definition PIPE_WIDTH :: int where "PIPE_WIDTH = 60"
definition PIPE_GAP :: int where "PIPE_GAP = 160"
definition GRAVITY :: real where "GRAVITY = 0.5"
definition JUMP_STRENGTH :: real where "JUMP_STRENGTH = -9"
definition PIPE_SPEED :: int where "PIPE_SPEED = 3"

section \<open>Leaderboard store\<close>

text \<open>
  \<open>data ? JSON.parse(data) : []\<close>: \<open>null\<close> and the empty string are falsy, every other
  string goes to \<open>JSON.parse\<close>, whose \<open>SyntaxError\<close> nothing catches.
\<close>

definition getLeaderboard :: "item \<Rightarrow> error + entry list" where
  "getLeaderboard data =
     (case data of
        NoItem \<Rightarrow> Inr []
      | EmptyString \<Rightarrow> Inr []
      | Malformed \<Rightarrow> Inl SyntaxError
      | Encoded lb \<Rightarrow> Inr lb)"

text \<open>
  \<open>Array.prototype.sort\<close> with a comparator is stable; with a consistent comparator its
  result is the one a stable insertion sort gives. \<open>cmp a b \<le> 0\<close> keeps \<open>a\<close> before \<open>b\<close>.
\<close>

fun insert_cmp :: "('a \<Rightarrow> 'a \<Rightarrow> int) \<Rightarrow> 'a \<Rightarrow> 'a list \<Rightarrow> 'a list" where
  "insert_cmp cmp a [] = [a]"
| "insert_cmp cmp a (b # bs) =
     (if cmp a b \<le> 0 then a # b # bs else b # insert_cmp cmp a bs)"

definition sort_cmp :: "('a \<Rightarrow> 'a \<Rightarrow> int) \<Rightarrow> 'a list \<Rightarrow> 'a list" where
  "sort_cmp cmp xs = foldr (insert_cmp cmp) xs []"

definition by_score_desc :: "entry \<Rightarrow> entry \<Rightarrow> int" where
  "by_score_desc a b = score b - score a"

text \<open>
  \<open>saveScore\<close>. The clock is a parameter: \<open>today\<close> is
  \<open>new Date().toLocaleDateString('ru-RU')\<close> and \<open>now\<close> is \<open>Date.now()\<close>. The result is the
  returned list together with the item written back.
\<close>

definition newEntry :: "int \<Rightarrow> string \<Rightarrow> int \<Rightarrow> entry" where
  "newEntry sc today now = \<lparr>score = sc, date = today, ident = now\<rparr>"

definition saveScore :: "int \<Rightarrow> string \<Rightarrow> int \<Rightarrow> item \<Rightarrow> error + (entry list \<times> item)" where
  "saveScore sc today now data =
     (case getLeaderboard data of
        Inl e \<Rightarrow> Inl e
      | Inr lb \<Rightarrow>
          (let updated = take 10 (sort_cmp by_score_desc (lb @ [newEntry sc today now]))
           in Inr (updated, Encoded updated)))"

section \<open>Simulation\<close>

text \<open>\<open>handleResize\<close>, given \<open>window.innerWidth\<close>.\<close>

definition handleResize :: "int \<Rightarrow> app \<Rightarrow> app" where
  "handleResize innerWidth s =
     (let newDims = getGameDimensions innerWidth
      in s\<lparr>dimensions := newDims,
            birdRef := (birdRef s)\<lparr>y := real_of_int (height newDims) / 2\<rparr>\<rparr>)"

text \<open>The canvas effect that React runs after \<open>dimensions\<close> or \<open>gameState\<close> changed.\<close>

definition canvasEffect :: "app \<Rightarrow> app" where
  "canvasEffect s =
     (if gameState s = Ready
      then s\<lparr>birdRef := (birdRef s)\<lparr>y := real_of_int (height (dimensions s)) / 2\<rparr>\<rparr>
      else s)"

text \<open>
  The pipe spawned on a frame that is a multiple of 100; \<open>r\<close> is the value of
  \<open>Math.random()\<close>.
\<close>

definition spawnPipe :: "dims \<Rightarrow> real \<Rightarrow> pipe" where
  "spawnPipe d r =
     (let minHeight = (50 :: int);
          maxHeight = height d - PIPE_GAP - minHeight - 100
      in \<lparr>x = width d,
          topHeight = \<lfloor>r * real_of_int (maxHeight - minHeight) + real_of_int minHeight\<rfloor>,
          passed = False\<rparr>)"

text \<open>
  The \<open>filter\<close> callback of the pipe update, run over the list from left to right: it moves
  each pipe, credits the score once, and keeps the pipe while it is on screen. The pair
  threaded through is \<open>(scoreRef.current, score)\<close>.
\<close>

fun updatePipes :: "pipe list \<Rightarrow> int \<times> int \<Rightarrow> pipe list \<times> (int \<times> int)" where
  "updatePipes [] acc = ([], acc)"
| "updatePipes (p # ps) (sr, sc) =
     (let x' = x p - PIPE_SPEED;
          scored = (\<not> passed p \<and> x' + PIPE_WIDTH < 100);
          p' = p\<lparr>x := x', passed := (passed p \<or> scored)\<rparr>;
          sr' = (if scored then sr + 1 else sr);
          sc' = (if scored then sr' else sc);
          (rest, acc') = updatePipes ps (sr', sc')
      in (if x' > - PIPE_WIDTH then p' # rest else rest, acc'))"

text \<open>The ground test, on the bird's centre \<open>by\<close>.\<close>

definition groundHit :: "dims \<Rightarrow> real \<Rightarrow> bool" where
  "groundHit d by \<longleftrightarrow> by + BIRD_SIZE / 2 \<ge> real_of_int (height d - 20)"

text \<open>The bird's inset rectangle \<open>birdRect\<close>.\<close>

definition birdLeft :: real where "birdLeft = 100 - BIRD_SIZE / 2 + 4"
definition birdRight :: real where "birdRight = 100 + BIRD_SIZE / 2 - 4"
definition birdTop :: "real \<Rightarrow> real" where "birdTop by = by - BIRD_SIZE / 2 + 4"
definition birdBottom :: "real \<Rightarrow> real" where "birdBottom by = by + BIRD_SIZE / 2 - 4"

text \<open>The two overlap tests of the \<open>forEach\<close> over the pipes.\<close>

definition pipeHit :: "dims \<Rightarrow> real \<Rightarrow> pipe \<Rightarrow> bool" where
  "pipeHit d by p \<longleftrightarrow>
     (birdLeft < real_of_int (x p + PIPE_WIDTH) \<and> birdRight > real_of_int (x p) \<and>
      birdTop by < real_of_int (topHeight p) \<and> birdBottom by > 0)
     \<or>
     (birdLeft < real_of_int (x p + PIPE_WIDTH) \<and> birdRight > real_of_int (x p) \<and>
      birdTop by < real_of_int (height d) \<and>
      birdBottom by > real_of_int (topHeight p + PIPE_GAP))"

text \<open>
  One call of \<open>gameLoop\<close>, without the drawing. \<open>r\<close> is what \<open>Math.random()\<close> returns if
  this frame spawns a pipe.
\<close>

definition gameLoop :: "real \<Rightarrow> app \<Rightarrow> app" where
  "gameLoop r s =
     (if gameState s = Playing then
        (let v = velocity (birdRef s) + GRAVITY;
             by = y (birdRef s) + v;
             b = \<lparr>y = by, velocity = v, rotation = min (max (v * 3) (-30)) 90\<rparr>;
             fc = frameCountRef s + 1;
             spawned = (if fc mod 100 = 0
                        then pipesRef s @ [spawnPipe (dimensions s) r]
                        else pipesRef s);
             (ps, sr, sc) = updatePipes spawned (scoreRef s, scoreSt s);
             over = (groundHit (dimensions s) by \<or> list_ex (pipeHit (dimensions s) by) ps)
         in s\<lparr>birdRef := b, frameCountRef := fc, pipesRef := ps, scoreRef := sr,
               scoreSt := sc, gameState := (if over then Gameover else Playing)\<rparr>)
      else s)"

definition jump :: "app \<Rightarrow> app" where
  "jump s =
     (if gameState s = Ready
      then s\<lparr>gameState := Playing, birdRef := (birdRef s)\<lparr>velocity := JUMP_STRENGTH\<rparr>\<rparr>
      else if gameState s = Playing
      then s\<lparr>birdRef := (birdRef s)\<lparr>velocity := JUMP_STRENGTH\<rparr>\<rparr>
      else s)"

definition resetGame :: "string \<Rightarrow> int \<Rightarrow> app \<Rightarrow> error + app" where
  "resetGame today now s =
     (case (if scoreSt s > 0
            then (case saveScore (scoreSt s) today now (storage s) of
                    Inl e \<Rightarrow> Inl e
                  | Inr (newLeaderboard, written) \<Rightarrow>
                      Inr (s\<lparr>leaderboard := newLeaderboard, storage := written\<rparr>))
            else Inr s) of
        Inl e \<Rightarrow> Inl e
      | Inr s' \<Rightarrow>
          Inr (s'\<lparr>birdRef := \<lparr>y = real_of_int (height (dimensions s)) / 2,
                               velocity = 0, rotation = 0\<rparr>,
                   pipesRef := [], frameCountRef := 0, scoreRef := 0, scoreSt := 0,
                   gameState := Ready\<rparr>))"

text \<open>
  The component as first rendered (\<open>useState\<close>/\<open>useRef\<close> initial values), for a window
  of the given inner width and a given stored item.
\<close>

definition initApp :: "int \<Rightarrow> item \<Rightarrow> app" where
  "initApp innerWidth data =
     (let d = getGameDimensions innerWidth
      in \<lparr>gameState = Ready, scoreSt = 0, leaderboard = [], dimensions = d,
          birdRef = \<lparr>y = real_of_int (height d) / 2, velocity = 0, rotation = 0\<rparr>,
          pipesRef = [], frameCountRef = 0, scoreRef = 0, storage = data\<rparr>)"

section \<open>Runs\<close>

text \<open>
  One animation frame as the player sees it: an optional flap (\<open>jump\<close>) arriving before
  the frame, then \<open>gameLoop\<close>. The input of a frame is the pair of the flap flag and the
  value \<open>Math.random()\<close> would return in it.
\<close>

definition frame :: "bool \<times> real \<Rightarrow> app \<Rightarrow> app" where
  "frame i s = gameLoop (snd i) (if fst i then jump s else s)"

fun play :: "(bool \<times> real) list \<Rightarrow> app \<Rightarrow> app" where
  "play [] s = s"
| "play (i # is) s = play is (frame i s)"

text \<open>A run of frames without any flap.\<close>

definition ticks :: "real list \<Rightarrow> app \<Rightarrow> app" where
  "ticks rs s = play (map (Pair False) rs) s"

text \<open>The game is still in mode \<open>'playing'\<close> when each frame of the run begins.\<close>

fun survives :: "(bool \<times> real) list \<Rightarrow> app \<Rightarrow> bool" where
  "survives [] s = True"
| "survives (i # is) s = (gameState s = Playing \<and> survives is (frame i s))"


text \<open>The order of the leaderboard: scores descending.\<close>

definition desc :: "entry \<Rightarrow> entry \<Rightarrow> bool" where
  "desc a b \<longleftrightarrow> score a \<ge> score b"

text \<open>The free-fall position of the spec after \<open>n\<close> frames, from the middle of height \<open>h\<close>.\<close>

definition fallY :: "int \<Rightarrow> nat \<Rightarrow> real" where
  "fallY h n = real_of_int h / 2 + 0.5 * real n * (real n + 1) / 2"

text \<open>
  The pipes on a playfield of width 400 after \<open>n \<le> 220\<close> frames of play, as pairs of
  \<open>x\<close> and \<open>passed\<close>: the first pipe appears in frame 100, the second in frame 200.
\<close>

definition timeline :: "nat \<Rightarrow> (int \<times> bool) list" where
  "timeline n =
     (if n < 100 then []
      else if n < 200 then [(400 - 3 * (int n - 99), False)]
      else [(400 - 3 * (int n - 99), n \<ge> 220), (400 - 3 * (int n - 199), False)])"

text \<open>
  A concrete run used to exercise the theorems: the player flaps every 35 frames, which
  keeps the bird between 223.5 and 300 on the 400 by 600 playfield, and every pipe gets
  its gap top from \<open>Math.random() = 1/2\<close>.
\<close>

definition hover :: "(bool \<times> real) list" where
  "hover = (True, 1/2) # replicate 34 (False, 1/2)"

definition demo_run :: "(bool \<times> real) list" where
  "demo_run = concat (replicate 6 hover) @ (True, 1/2) # replicate 9 (False, 1/2)"

definition demo_start :: app where
  "demo_start = jump (initApp 500 NoItem)"

text \<open>A full leaderboard of ten entries that all score 50.\<close>

definition full_board :: "entry list" where
  "full_board = map (newEntry 50 ''01.01.2025'') [1, 2, 3, 4, 5, 6, 7, 8, 9, 10]"

text \<open>The start of the free-fall scenario: playing, bird at mid-height, velocity 0.\<close>

definition fall_start :: app where
  "fall_start = (initApp 500 NoItem)\<lparr>gameState := Playing\<rparr>"

section \<open>Evaluation and basic facts about runs\<close>

lemmas evals = frame_def gameLoop_def jump_def initApp_def Let_def getGameDimensions_def
  GRAVITY_def JUMP_STRENGTH_def BIRD_SIZE_def PIPE_WIDTH_def PIPE_GAP_def PIPE_SPEED_def
  groundHit_def pipeHit_def birdLeft_def birdRight_def birdTop_def birdBottom_def spawnPipe_def

lemma replicate_num: "replicate (numeral k) a = a # replicate (pred_numeral k) a"
  by (simp add: numeral_eq_Suc)

lemma play_append: "play (xs @ ys) s = play ys (play xs s)"
  by (induction xs arbitrary: s) simp_all

lemma survives_append: "survives (xs @ ys) s = (survives xs s \<and> survives ys (play xs s))"
  by (induction xs arbitrary: s) simp_all

lemma survives_take: "survives ins s \<Longrightarrow> survives (take k ins) s"
  using survives_append [of "take k ins" "drop k ins" s] by simp

lemma gameLoop_not_playing: "gameState s \<noteq> Playing \<Longrightarrow> gameLoop r s = s"
  by (simp add: gameLoop_def)

lemma frame_gameover: "gameState s = Gameover \<Longrightarrow> frame i s = s"
  by (simp add: frame_def jump_def gameLoop_def)

lemma play_gameover: "gameState s = Gameover \<Longrightarrow> play ins s = s"
  by (induction ins) (simp_all add: frame_gameover)

lemma ticks_Cons: "ticks (r # rs) s = ticks rs (gameLoop r s)"
  by (simp add: ticks_def frame_def)

lemma ticks_snoc: "ticks (rs @ [r]) s = gameLoop r (ticks rs s)"
  by (simp add: ticks_def play_append frame_def)

lemma ticks_not_playing: "gameState s \<noteq> Playing \<Longrightarrow> ticks rs s = s"
  by (induction rs) (simp_all add: ticks_def frame_def gameLoop_not_playing)

lemma gameLoop_bird:
  "gameState s = Playing \<Longrightarrow>
     velocity (birdRef (gameLoop r s)) = velocity (birdRef s) + 1/2 \<and>
     y (birdRef (gameLoop r s)) = y (birdRef s) + velocity (birdRef s) + 1/2"
  by (simp add: gameLoop_def Let_def case_prod_beta GRAVITY_def)

lemma gameLoop_frameCount:
  "gameState s = Playing \<Longrightarrow> frameCountRef (gameLoop r s) = frameCountRef s + 1"
  by (simp add: gameLoop_def Let_def case_prod_beta)

lemma gameLoop_dimensions: "dimensions (gameLoop r s) = dimensions s"
  by (simp add: gameLoop_def Let_def case_prod_beta)



lemma ticks_dimensions: "dimensions (ticks rs s) = dimensions s"
  by (induction rs arbitrary: s) (simp_all add: ticks_def frame_def gameLoop_dimensions)

lemma demo_start_fields:
  "gameState demo_start = Playing" "dimensions demo_start = \<lparr>width = 400, height = 600\<rparr>"
  "frameCountRef demo_start = 0" "pipesRef demo_start = []"
  "scoreRef demo_start = 0" "scoreSt demo_start = 0"
  "getGameDimensions 500 = \<lparr>width = 400, height = 600\<rparr>"
  by (simp_all add: demo_start_def jump_def initApp_def Let_def getGameDimensions_def)

lemma demo_run_length: "length demo_run = 220"
  by (simp add: demo_run_def hover_def replicate_num)


lemma demo_run_survives: "survives demo_run demo_start"
  by (simp add: demo_run_def hover_def demo_start_def evals replicate_num)

section \<open>Control surface\<close>

text \<open>
  C7. While playing, \<open>jump\<close> overwrites the velocity with \<open>JUMP_STRENGTH\<close> (which is -9)
  whatever the velocity was; a second \<open>jump\<close> changes nothing more.
\<close>

theorem jump_sets_velocity:
  "gameState s = Playing \<Longrightarrow>
     velocity (birdRef (jump s)) = JUMP_STRENGTH \<and> JUMP_STRENGTH = -9 \<and>
     gameState (jump s) = Playing \<and> jump (jump s) = jump s"
  by (simp add: jump_def JUMP_STRENGTH_def)

text \<open>C7 at the state right after the first flap, where the velocity is already -9.\<close>

theorem jump_sets_velocity_witness:
  "gameState demo_start = Playing \<and>
   velocity (birdRef (jump demo_start)) = JUMP_STRENGTH \<and> JUMP_STRENGTH = -9 \<and>
   gameState (jump demo_start) = Playing \<and> jump (jump demo_start) = jump demo_start"
  using jump_sets_velocity [OF demo_start_fields(1)] demo_start_fields(1) by simp

text \<open>
  C3. A frame that finds \<open>gameState\<close> other than \<open>'playing'\<close> skips the whole physics
  block, so any number of frames leaves the bird, the pipes and both score cells (indeed
  the whole state) as they were; after game over the same holds when flaps arrive between
  the frames. The frame that runs is taken to be the one React built for the current
  \<open>gameState\<close>.
\<close>

theorem gameover_ticks_inert:
  "gameState s \<noteq> Playing \<Longrightarrow>
     ticks rs s = s \<and>
     y (birdRef (ticks rs s)) = y (birdRef s) \<and>
     map x (pipesRef (ticks rs s)) = map x (pipesRef s) \<and>
     scoreRef (ticks rs s) = scoreRef s \<and> scoreSt (ticks rs s) = scoreSt s \<and>
     (gameState s = Gameover \<longrightarrow> play ins s = s)"
  by (simp add: ticks_not_playing play_gameover)

text \<open>C3 at the free-fall scenario once it has ended.\<close>

theorem gameover_ticks_inert_witness:
  "gameState (fall_start\<lparr>gameState := Gameover\<rparr>) \<noteq> Playing \<and>
   gameState (fall_start\<lparr>gameState := Gameover\<rparr>) = Gameover \<and>
   ticks [0, 1/2] (fall_start\<lparr>gameState := Gameover\<rparr>) = fall_start\<lparr>gameState := Gameover\<rparr> \<and>
   play [(True, 0), (False, 1/2)] (fall_start\<lparr>gameState := Gameover\<rparr>)
     = fall_start\<lparr>gameState := Gameover\<rparr>"
  using gameover_ticks_inert [of "fall_start\<lparr>gameState := Gameover\<rparr>" "[0, 1/2]"
      "[(True, 0), (False, 1/2)]"]
  by simp

text \<open>
  C10. \<open>handleResize\<close> puts the bird at half of the new height in every mode, also while
  playing, and touches neither velocity, scores, pipes, frame counter nor mode; the canvas
  effect that follows does not change that.
\<close>

theorem handleResize_recentres:
  "y (birdRef (handleResize w s)) = real_of_int (height (getGameDimensions w)) / 2 \<and>
   y (birdRef (canvasEffect (handleResize w s))) = real_of_int (height (getGameDimensions w)) / 2 \<and>
   dimensions (handleResize w s) = getGameDimensions w \<and>
   velocity (birdRef (handleResize w s)) = velocity (birdRef s) \<and>
   scoreSt (handleResize w s) = scoreSt s \<and>
   scoreRef (handleResize w s) = scoreRef s \<and>
   pipesRef (handleResize w s) = pipesRef s \<and>
   frameCountRef (handleResize w s) = frameCountRef s \<and>
   gameState (handleResize w s) = gameState s"
  by (simp add: handleResize_def canvasEffect_def Let_def)

section \<open>Leaderboard store\<close>

text \<open>
  C1, as the code has it. \<open>getLeaderboard\<close> gives the empty list when there is no item or
  the item is the empty string, and the decoded list when the item is valid; on a
  non-empty item that is not valid JSON the \<open>SyntaxError\<close> of \<open>JSON.parse\<close> reaches the
  caller, and that is the only way the call fails.
\<close>

theorem getLeaderboard_cases:
  "getLeaderboard NoItem = Inr [] \<and>
   getLeaderboard EmptyString = Inr [] \<and>
   getLeaderboard (Encoded lb) = Inr lb \<and>
   (getLeaderboard data = Inl SyntaxError) = (data = Malformed)"
  by (cases data) (simp_all add: getLeaderboard_def)

text \<open>
  C1 as stated fails: on malformed stored text the call does not return the empty list,
  it raises.
\<close>

theorem getLeaderboard_malformed_raises:
  "getLeaderboard Malformed = Inl SyntaxError \<and> getLeaderboard Malformed \<noteq> Inr []"
  by (simp add: getLeaderboard_def)

subsection \<open>The sort\<close>

lemma length_insert_cmp: "length (insert_cmp cmp a xs) = Suc (length xs)"
  by (induction xs) auto

lemma length_sort_cmp: "length (sort_cmp cmp xs) = length xs"
  by (induction xs) (auto simp: sort_cmp_def length_insert_cmp)

lemma set_insert_cmp: "set (insert_cmp cmp a xs) = insert a (set xs)"
  by (induction xs) auto

lemma set_sort_cmp: "set (sort_cmp cmp xs) = set xs"
  by (induction xs) (auto simp: sort_cmp_def set_insert_cmp)

lemma sorted_insert_cmp:
  "sorted_wrt desc xs \<Longrightarrow> sorted_wrt desc (insert_cmp by_score_desc a xs)"
  by (induction xs) (auto simp: set_insert_cmp desc_def by_score_desc_def)

lemma sorted_sort_cmp: "sorted_wrt desc (sort_cmp by_score_desc xs)"
  by (induction xs) (auto simp: sort_cmp_def sorted_insert_cmp)

text \<open>Stability: a list already in order comes back unchanged.\<close>

lemma sort_cmp_sorted_id:
  "sorted_wrt (\<lambda>a b. cmp a b \<le> 0) xs \<Longrightarrow> sort_cmp cmp xs = xs"
proof (induction xs)
  case Nil
  show ?case by (simp add: sort_cmp_def)
next
  case (Cons a xs)
  then have "sort_cmp cmp xs = xs" by simp
  then have "sort_cmp cmp (a # xs) = insert_cmp cmp a xs"
    by (simp add: sort_cmp_def)
  also from Cons.prems have "\<dots> = a # xs"
    by (cases xs) auto
  finally show ?case .
qed

lemma sorted_wrt_take: "sorted_wrt P xs \<Longrightarrow> sorted_wrt P (take n xs)"
  by (metis append_take_drop_id sorted_wrt_append)

lemma sorted_wrt_all_pairs:
  "\<forall>a \<in> set xs. \<forall>b \<in> set xs. P a b \<Longrightarrow> sorted_wrt P xs"
  by (induction xs) auto

subsection \<open>Saving\<close>

lemma saveScore_ok:
  assumes "getLeaderboard data = Inr lb"
  shows "saveScore sc today now data =
           Inr (take 10 (sort_cmp by_score_desc (lb @ [newEntry sc today now])),
                Encoded (take 10 (sort_cmp by_score_desc (lb @ [newEntry sc today now]))))"
  using assms by (simp add: saveScore_def Let_def)

lemma resetGame_ok:
  assumes "scoreSt s > 0" and "getLeaderboard (storage s) = Inr lb"
  shows "resetGame today now s =
           Inr (s\<lparr>leaderboard := take 10 (sort_cmp by_score_desc (lb @ [newEntry (scoreSt s) today now])),
                   storage := Encoded (take 10 (sort_cmp by_score_desc (lb @ [newEntry (scoreSt s) today now]))),
                   birdRef := \<lparr>y = real_of_int (height (dimensions s)) / 2,
                               velocity = 0, rotation = 0\<rparr>,
                   pipesRef := [], frameCountRef := 0, scoreRef := 0, scoreSt := 0,
                   gameState := Ready\<rparr>)"
  using assms(1) by (simp add: resetGame_def saveScore_ok [OF assms(2)])

text \<open>
  C5. When the run's score is positive and the stored leaderboard reads as \<open>lb\<close>,
  \<open>resetGame\<close> succeeds; the leaderboard it sets (and writes back) is the first ten of
  \<open>lb\<close> with the new entry appended and sorted, so its length is
  \<open>min 10 (length lb + 1)\<close>, it is in descending order of score, and it holds nothing but
  old entries and the new one, which carries the run's score, the current date and
  \<open>Date.now()\<close>. The game itself is back in its ready state.
\<close>

theorem resetGame_commits_score:
  assumes "scoreSt s > 0" and "getLeaderboard (storage s) = Inr lb"
  shows "\<exists>s'. resetGame today now s = Inr s' \<and>
           leaderboard s' = take 10 (sort_cmp by_score_desc (lb @ [newEntry (scoreSt s) today now])) \<and>
           storage s' = Encoded (leaderboard s') \<and>
           length (leaderboard s') = min 10 (length lb + 1) \<and>
           sorted_wrt desc (leaderboard s') \<and>
           set (leaderboard s') \<subseteq> insert (newEntry (scoreSt s) today now) (set lb) \<and>
           score (newEntry (scoreSt s) today now) = scoreSt s \<and>
           date (newEntry (scoreSt s) today now) = today \<and>
           ident (newEntry (scoreSt s) today now) = now \<and>
           gameState s' = Ready \<and> scoreSt s' = 0 \<and> scoreRef s' = 0 \<and>
           pipesRef s' = [] \<and> frameCountRef s' = 0 \<and>
           birdRef s' = \<lparr>y = real_of_int (height (dimensions s)) / 2, velocity = 0, rotation = 0\<rparr>"
proof -
  let ?new = "newEntry (scoreSt s) today now"
  let ?upd = "take 10 (sort_cmp by_score_desc (lb @ [?new]))"
  have len: "length ?upd = min 10 (length lb + 1)"
    by (simp add: length_sort_cmp min.commute)
  have srt: "sorted_wrt desc ?upd"
    by (rule sorted_wrt_take) (rule sorted_sort_cmp)
  have sub: "set ?upd \<subseteq> insert ?new (set lb)"
    using set_take_subset [of 10 "sort_cmp by_score_desc (lb @ [?new])"]
    by (simp add: set_sort_cmp)
  have fields: "score ?new = scoreSt s \<and> date ?new = today \<and> ident ?new = now"
    by (simp add: newEntry_def)
  show ?thesis
    unfolding resetGame_ok [OF assms]
    using len srt sub fields by simp
qed

text \<open>C5 on a stored leaderboard of one entry (score 7) and a run that scored 3.\<close>

theorem resetGame_commits_score_witness:
  "scoreSt ((initApp 500 (Encoded [newEntry 7 ''01.01.2025'' 1]))\<lparr>scoreSt := 3\<rparr>) > 0 \<and>
   getLeaderboard (storage ((initApp 500 (Encoded [newEntry 7 ''01.01.2025'' 1]))\<lparr>scoreSt := 3\<rparr>))
     = Inr [newEntry 7 ''01.01.2025'' 1] \<and>
   (\<exists>s'. resetGame ''02.01.2025'' 2
            ((initApp 500 (Encoded [newEntry 7 ''01.01.2025'' 1]))\<lparr>scoreSt := 3\<rparr>) = Inr s' \<and>
         leaderboard s' = [newEntry 7 ''01.01.2025'' 1, newEntry 3 ''02.01.2025'' 2] \<and>
         length (leaderboard s') = 2 \<and> sorted_wrt desc (leaderboard s'))"
proof -
  let ?s = "(initApp 500 (Encoded [newEntry 7 ''01.01.2025'' 1]))\<lparr>scoreSt := 3\<rparr>"
  have pos: "scoreSt ?s > 0" by simp
  have old: "getLeaderboard (storage ?s) = Inr [newEntry 7 ''01.01.2025'' 1]"
    by (simp add: initApp_def Let_def getLeaderboard_def)
  have sorted: "take 10 (sort_cmp by_score_desc
                  ([newEntry 7 ''01.01.2025'' 1] @ [newEntry (scoreSt ?s) ''02.01.2025'' 2]))
                = [newEntry 7 ''01.01.2025'' 1, newEntry 3 ''02.01.2025'' 2]"
    by (simp add: sort_cmp_def by_score_desc_def newEntry_def)
  from resetGame_commits_score [OF pos old, of "''02.01.2025''" 2]
  obtain s' where "resetGame ''02.01.2025'' 2 ?s = Inr s'"
    and "leaderboard s' = [newEntry 7 ''01.01.2025'' 1, newEntry 3 ''02.01.2025'' 2]"
    and "length (leaderboard s') = min 10 (length [newEntry 7 ''01.01.2025'' 1] + 1)"
    and "sorted_wrt desc (leaderboard s')"
    unfolding sorted by blast
  with pos old show ?thesis by simp
qed

text \<open>
  C6. With ten stored entries that all score 50, the sort leaves a new entry of score 50
  behind all of them (the sorted list is the old list followed by the new entry), and the
  cut to ten entries then returns, and writes back, exactly the ten old entries: the
  result has ten entries and the new entry, being eleventh, is the one cut off.
\<close>

theorem saveScore_tie_truncated:
  assumes "length lb = 10" and "list_all (\<lambda>e. score e = 50) lb"
    and "getLeaderboard data = Inr lb"
  shows "sort_cmp by_score_desc (lb @ [newEntry 50 today now]) = lb @ [newEntry 50 today now] \<and>
         saveScore 50 today now data = Inr (lb, Encoded lb) \<and>
         length (take 10 (sort_cmp by_score_desc (lb @ [newEntry 50 today now]))) = 10"
proof -
  let ?all = "lb @ [newEntry 50 today now]"
  from assms(2) have "\<forall>e \<in> set ?all. score e = 50"
    by (simp add: list_all_iff newEntry_def)
  then have "\<forall>a \<in> set ?all. \<forall>b \<in> set ?all. by_score_desc a b \<le> 0"
    by (simp add: by_score_desc_def)
  then have "sorted_wrt (\<lambda>a b. by_score_desc a b \<le> 0) ?all"
    by (rule sorted_wrt_all_pairs)
  then have stable: "sort_cmp by_score_desc ?all = ?all"
    by (rule sort_cmp_sorted_id)
  with assms(1) show ?thesis
    by (simp add: saveScore_ok [OF assms(3)])
qed

text \<open>C6 on a concrete full leaderboard.\<close>

theorem saveScore_tie_truncated_witness:
  "length full_board = 10 \<and> list_all (\<lambda>e. score e = 50) full_board \<and>
   getLeaderboard (Encoded full_board) = Inr full_board \<and>
   sort_cmp by_score_desc (full_board @ [newEntry 50 ''02.01.2025'' 11])
     = full_board @ [newEntry 50 ''02.01.2025'' 11] \<and>
   saveScore 50 ''02.01.2025'' 11 (Encoded full_board) = Inr (full_board, Encoded full_board)"
proof -
  have len: "length full_board = 10"
    and all50: "list_all (\<lambda>e. score e = 50) full_board"
    by (simp_all add: full_board_def newEntry_def)
  have old: "getLeaderboard (Encoded full_board) = Inr full_board"
    by (simp add: getLeaderboard_def)
  from saveScore_tie_truncated [OF len all50 old, of "''02.01.2025''" 11] len all50 old
  show ?thesis by simp
qed

section \<open>Obstacle generator\<close>







section \<open>Physics and collision\<close>

text \<open>
  C9. A playing frame ends the game exactly when the ground test or a pipe test fires,
  and the ground test reads the nominal lower edge \<open>y + 17\<close> against \<open>height - 20\<close>, while
  the rectangle used against the pipes ends at \<open>y + 13\<close>. So in every frame there is a
  bird for which the frame ends the game by the ground test although the bottom of the
  inset rectangle is still above \<open>height - 20\<close>.
\<close>

theorem ground_test_uses_nominal_edge:
  "gameState (gameLoop r (s\<lparr>gameState := Playing\<rparr>)) =
     (if groundHit (dimensions s) (y (birdRef (gameLoop r (s\<lparr>gameState := Playing\<rparr>)))) \<or>
         list_ex (pipeHit (dimensions s) (y (birdRef (gameLoop r (s\<lparr>gameState := Playing\<rparr>)))))
           (pipesRef (gameLoop r (s\<lparr>gameState := Playing\<rparr>)))
      then Gameover else Playing) \<and>
   groundHit d by = (by + 17 \<ge> real_of_int (height d) - 20) \<and>
   birdBottom by = by + 13 \<and>
   (\<exists>b. gameState (gameLoop r (s\<lparr>gameState := Playing, birdRef := b\<rparr>)) = Gameover \<and>
        groundHit (dimensions s) (y (birdRef (gameLoop r (s\<lparr>gameState := Playing, birdRef := b\<rparr>)))) \<and>
        birdBottom (y (birdRef (gameLoop r (s\<lparr>gameState := Playing, birdRef := b\<rparr>))))
          < real_of_int (height (dimensions s) - 20))"
proof -
  have decide: "gameState (gameLoop r (s\<lparr>gameState := Playing\<rparr>)) =
     (if groundHit (dimensions s) (y (birdRef (gameLoop r (s\<lparr>gameState := Playing\<rparr>)))) \<or>
         list_ex (pipeHit (dimensions s) (y (birdRef (gameLoop r (s\<lparr>gameState := Playing\<rparr>)))))
           (pipesRef (gameLoop r (s\<lparr>gameState := Playing\<rparr>)))
      then Gameover else Playing)"
    by (simp add: gameLoop_def Let_def case_prod_beta)
  have edges: "groundHit d by = (by + 17 \<ge> real_of_int (height d) - 20)"
    "birdBottom by = by + 13"
    by (simp_all add: groundHit_def birdBottom_def BIRD_SIZE_def)
  let ?b = "\<lparr>y = real_of_int (height (dimensions s)) - 37, velocity = - GRAVITY, rotation = 0\<rparr>"
  have "gameState (gameLoop r (s\<lparr>gameState := Playing, birdRef := ?b\<rparr>)) = Gameover \<and>
       groundHit (dimensions s) (y (birdRef (gameLoop r (s\<lparr>gameState := Playing, birdRef := ?b\<rparr>)))) \<and>
       birdBottom (y (birdRef (gameLoop r (s\<lparr>gameState := Playing, birdRef := ?b\<rparr>))))
         < real_of_int (height (dimensions s) - 20)"
    by (simp add: gameLoop_def Let_def case_prod_beta groundHit_def birdBottom_def BIRD_SIZE_def)
  then have "\<exists>b. gameState (gameLoop r (s\<lparr>gameState := Playing, birdRef := b\<rparr>)) = Gameover \<and>
       groundHit (dimensions s) (y (birdRef (gameLoop r (s\<lparr>gameState := Playing, birdRef := b\<rparr>)))) \<and>
       birdBottom (y (birdRef (gameLoop r (s\<lparr>gameState := Playing, birdRef := b\<rparr>))))
         < real_of_int (height (dimensions s) - 20)"
    by (rule exI)
  with decide edges show ?thesis by simp
qed

subsection \<open>Free fall\<close>

lemma fall_general:
  "survives (map (Pair False) rs) s \<Longrightarrow>
     velocity (birdRef (ticks rs s)) = velocity (birdRef s) + real (length rs) / 2 \<and>
     y (birdRef (ticks rs s)) =
       y (birdRef s) + real (length rs) * velocity (birdRef s)
         + real (length rs) * (real (length rs) + 1) / 4 \<and>
     frameCountRef (ticks rs s) = frameCountRef s + length rs"
proof (induction rs arbitrary: s)
  case Nil
  show ?case by (simp add: ticks_def)
next
  case (Cons r rs)
  from Cons.prems have playing: "gameState s = Playing"
    and rest: "survives (map (Pair False) rs) (gameLoop r s)"
    by (simp_all add: frame_def)
  note step = gameLoop_bird [OF playing, of r] gameLoop_frameCount [OF playing, of r]
  from Cons.IH [OF rest] show ?case
    by (simp add: ticks_Cons step field_simps)
qed

lemma gameLoop_no_pipes:
  assumes "gameState s = Playing" and "pipesRef s = []"
    and "(frameCountRef s + 1) mod 100 \<noteq> 0"
  shows "pipesRef (gameLoop r s) = [] \<and>
         (gameState (gameLoop r s) = Gameover) =
           groundHit (dimensions s) (y (birdRef (gameLoop r s)))"
  using assms by (simp add: gameLoop_def Let_def)

lemma ticks_no_pipes:
  "survives (map (Pair False) rs) s \<Longrightarrow> pipesRef s = [] \<Longrightarrow>
     frameCountRef s + length rs < 100 \<Longrightarrow> pipesRef (ticks rs s) = []"
proof (induction rs arbitrary: s)
  case Nil
  then show ?case by (simp add: ticks_def)
next
  case (Cons r rs)
  from Cons.prems have playing: "gameState s = Playing"
    and rest: "survives (map (Pair False) rs) (gameLoop r s)"
    by (simp_all add: frame_def)
  from Cons.prems have "(frameCountRef s + 1) mod 100 \<noteq> 0" by simp
  with playing Cons.prems have "pipesRef (gameLoop r s) = []"
    by (simp add: gameLoop_no_pipes)
  moreover from Cons.prems have "frameCountRef (gameLoop r s) + length rs < 100"
    by (simp add: gameLoop_frameCount [OF playing])
  ultimately show ?case
    using Cons.IH [OF rest] by (simp add: ticks_Cons)
qed

text \<open>
  C8, as the code has it. From velocity 0 at mid-height, \<open>N\<close> frames without a flap, each
  begun in mode \<open>'playing'\<close>, leave the velocity at \<open>0.5 * N\<close> and the position at
  \<open>height / 2 + 0.5 * N * (N + 1) / 2\<close>. When the fall starts with no pipes and the frame
  counter at 0, the \<open>N\<close>-th of these frames (\<open>N < 100\<close>) ends the game exactly when the
  nominal lower edge \<open>y + BIRD_SIZE / 2\<close> has reached \<open>height - 20\<close>.
\<close>

theorem free_fall:
  assumes "survives (map (Pair False) rs) s"
    and "velocity (birdRef s) = 0"
    and "y (birdRef s) = real_of_int (height (dimensions s)) / 2"
    and "length rs = N"
  shows "velocity (birdRef (ticks rs s)) = 0.5 * real N \<and>
         y (birdRef (ticks rs s)) = fallY (height (dimensions s)) N \<and>
         (pipesRef s = [] \<and> frameCountRef s = 0 \<and> 0 < N \<and> N < 100 \<longrightarrow>
            (gameState (ticks rs s) = Gameover) =
              (fallY (height (dimensions s)) N + BIRD_SIZE / 2
                 \<ge> real_of_int (height (dimensions s) - 20)))"
proof -
  from fall_general [OF assms(1)] assms(2-4)
  have vel: "velocity (birdRef (ticks rs s)) = 0.5 * real N"
    and pos: "y (birdRef (ticks rs s)) = fallY (height (dimensions s)) N"
    by (simp_all add: fallY_def)
  have "(gameState (ticks rs s) = Gameover) =
          (fallY (height (dimensions s)) N + BIRD_SIZE / 2
             \<ge> real_of_int (height (dimensions s) - 20))"
    if start: "pipesRef s = []" "frameCountRef s = 0" and N: "0 < N" "N < 100"
  proof -
    from N assms(4) obtain rs' r where split: "rs = rs' @ [r]"
      by (cases rs rule: rev_cases) auto
    let ?s = "ticks rs' s"
    from assms(1) have before: "survives (map (Pair False) rs') s"
      and playing: "gameState ?s = Playing"
      by (simp_all add: split survives_append ticks_def)
    from N assms(4) have len: "length rs' = N - 1" "length rs' < 99"
      by (simp_all add: split)
    from before start len have none: "pipesRef ?s = []"
      by (simp add: ticks_no_pipes)
    from fall_general [OF before] start len have "frameCountRef ?s = N - 1"
      by simp
    with N have "(frameCountRef ?s + 1) mod 100 \<noteq> 0" by simp
    from gameLoop_no_pipes [OF playing none this, of r]
    have "(gameState (ticks rs s) = Gameover) =
            groundHit (dimensions s) (y (birdRef (ticks rs s)))"
      by (simp add: split ticks_snoc ticks_dimensions)
    then show ?thesis
      by (simp add: groundHit_def pos)
  qed
  with vel pos show ?thesis by blast
qed

lemma fall_start_survives: "survives (map (Pair False) (replicate 32 0)) fall_start"
  by (simp add: fall_start_def evals replicate_num)

text \<open>
  C8 on the 400 by 600 playfield: 32 frames of fall, velocity 16, position 564, and the
  32nd frame ends the game (564 + 17 is at least 580).
\<close>

theorem free_fall_witness:
  "survives (map (Pair False) (replicate 32 0)) fall_start \<and>
   velocity (birdRef fall_start) = 0 \<and>
   y (birdRef fall_start) = real_of_int (height (dimensions fall_start)) / 2 \<and>
   length (replicate 32 (0::real)) = 32 \<and>
   velocity (birdRef (ticks (replicate 32 0) fall_start)) = 16 \<and>
   y (birdRef (ticks (replicate 32 0) fall_start)) = 564 \<and>
   gameState (ticks (replicate 32 0) fall_start) = Gameover"
proof -
  have start: "velocity (birdRef fall_start) = 0"
    "y (birdRef fall_start) = real_of_int (height (dimensions fall_start)) / 2"
    "pipesRef fall_start = []" "frameCountRef fall_start = 0"
    "height (dimensions fall_start) = 600"
    by (simp_all add: fall_start_def initApp_def Let_def getGameDimensions_def)
  have len: "length (replicate 32 (0::real)) = 32" by simp
  from free_fall [OF fall_start_survives start(1,2) len] start fall_start_survives
  show ?thesis
    by (simp add: fallY_def BIRD_SIZE_def)
qed

text \<open>
  C8 as stated fails on the 400 by 600 playfield. After 32 frames the game is over
  although the lower edge of the hitbox, \<open>birdBottom\<close>, is at 577, short of
  \<open>height - 20 = 580\<close>; and after 27 frames that edge is at 502, beyond
  \<open>height - 100 = 500\<close> (the margin of the pipe generator), and the game is still on.
\<close>

theorem free_fall_hitbox_counterexample:
  "gameState (ticks (replicate 32 0) fall_start) = Gameover \<and>
   birdBottom (y (birdRef (ticks (replicate 32 0) fall_start)))
     < real_of_int (height (dimensions fall_start) - 20) \<and>
   gameState (ticks (replicate 27 0) fall_start) = Playing \<and>
   birdBottom (y (birdRef (ticks (replicate 27 0) fall_start)))
     \<ge> real_of_int (height (dimensions fall_start) - 100)"
  by (simp add: ticks_def fall_start_def evals replicate_num)

subsection \<open>The first pipe\<close>

lemma updatePipes_xs:
  "map (\<lambda>p. (x p, passed p)) (fst (updatePipes ps acc)) =
     map (\<lambda>(a, b). (a - 3, b \<or> a - 3 + 60 < 100))
       (filter (\<lambda>(a, b). a - 3 > - 60) (map (\<lambda>p. (x p, passed p)) ps))"
proof (induction ps arbitrary: acc)
  case Nil
  show ?case by simp
next
  case (Cons p ps)
  obtain sr sc where acc: "acc = (sr, sc)" by (cases acc)
  show ?case
    by (simp add: acc Let_def case_prod_beta Cons.IH PIPE_SPEED_def PIPE_WIDTH_def) blast
qed

lemma updatePipes_score:
  "snd (updatePipes ps (sr, sc)) =
     (let k = int (length (filter (\<lambda>(a, b). \<not> b \<and> a - 3 + 60 < 100)
                              (map (\<lambda>p. (x p, passed p)) ps)))
      in (sr + k, if k = 0 then sc else sr + k))"
proof (induction ps arbitrary: sr sc)
  case Nil
  show ?case by simp
next
  case (Cons p ps)
  show ?case
    by (auto simp: Let_def case_prod_beta Cons.IH PIPE_SPEED_def PIPE_WIDTH_def filter_map comp_def)
qed

lemma spawn_frames: "n < 220 \<Longrightarrow> (Suc n mod 100 = 0) = (n = 99 \<or> n = 199)"
  by presburger

lemma gameLoop_timeline:
  assumes "gameState s = Playing" and "width (dimensions s) = 400"
    and "frameCountRef s = n" and "n < 220"
    and "map (\<lambda>p. (x p, passed p)) (pipesRef s) = timeline n"
    and "scoreRef s = 0" and "scoreSt s = 0"
  shows "frameCountRef (gameLoop r s) = Suc n \<and>
         dimensions (gameLoop r s) = dimensions s \<and>
         map (\<lambda>p. (x p, passed p)) (pipesRef (gameLoop r s)) = timeline (Suc n) \<and>
         scoreRef (gameLoop r s) = (if Suc n < 220 then 0 else 1) \<and>
         scoreSt (gameLoop r s) = (if Suc n < 220 then 0 else 1)"
proof -
  let ?spawned = "if Suc n mod 100 = 0
                  then pipesRef s @ [spawnPipe (dimensions s) r] else pipesRef s"
  have proj: "map (\<lambda>p. (x p, passed p)) ?spawned =
                (if n = 99 \<or> n = 199 then timeline n @ [(400, False)] else timeline n)"
    using assms(2,4,5) by (simp add: spawn_frames spawnPipe_def Let_def)
  have res: "pipesRef (gameLoop r s) = fst (updatePipes ?spawned (0, 0))"
    "scoreRef (gameLoop r s) = fst (snd (updatePipes ?spawned (0, 0)))"
    "scoreSt (gameLoop r s) = snd (snd (updatePipes ?spawned (0, 0)))"
    "frameCountRef (gameLoop r s) = Suc n"
    "dimensions (gameLoop r s) = dimensions s"
    using assms(1,3,6,7) by (simp_all add: gameLoop_def Let_def case_prod_beta)
  from assms(4) have pipes:
    "map (\<lambda>p. (x p, passed p)) (fst (updatePipes ?spawned (0, 0))) = timeline (Suc n)"
    unfolding updatePipes_xs proj by (auto simp: timeline_def)
  from assms(4) have score: "snd (updatePipes ?spawned (0, 0)) =
      (if Suc n < 220 then (0, 0) else (1, 1))"
    unfolding updatePipes_score proj by (auto simp: timeline_def Let_def)
  from pipes score show ?thesis
    by (simp add: res)
qed

lemma frame_timeline:
  assumes "gameState s = Playing" and "width (dimensions s) = 400"
    and "frameCountRef s = n" and "n < 220"
    and "map (\<lambda>p. (x p, passed p)) (pipesRef s) = timeline n"
    and "scoreRef s = 0" and "scoreSt s = 0"
  shows "frameCountRef (frame i s) = Suc n \<and>
         dimensions (frame i s) = dimensions s \<and>
         map (\<lambda>p. (x p, passed p)) (pipesRef (frame i s)) = timeline (Suc n) \<and>
         scoreRef (frame i s) = (if Suc n < 220 then 0 else 1) \<and>
         scoreSt (frame i s) = (if Suc n < 220 then 0 else 1)"
proof -
  let ?s = "if fst i then jump s else s"
  from assms have "gameState ?s = Playing" "width (dimensions ?s) = 400"
    "frameCountRef ?s = n"
    "map (\<lambda>p. (x p, passed p)) (pipesRef ?s) = timeline n"
    "scoreRef ?s = 0" "scoreSt ?s = 0" "dimensions ?s = dimensions s"
    by (simp_all add: jump_def)
  with gameLoop_timeline [of ?s n "snd i"] assms(4) show ?thesis
    by (simp add: frame_def)
qed

lemma play_timeline:
  assumes "survives ins s" and "width (dimensions s) = 400"
    and "frameCountRef s = n" and "n + length ins \<le> 220"
    and "map (\<lambda>p. (x p, passed p)) (pipesRef s) = timeline n"
    and "scoreRef s = 0" and "scoreSt s = 0" and "n < 220"
  shows "frameCountRef (play ins s) = n + length ins \<and>
         map (\<lambda>p. (x p, passed p)) (pipesRef (play ins s)) = timeline (n + length ins) \<and>
         scoreRef (play ins s) = (if n + length ins < 220 then 0 else 1) \<and>
         scoreSt (play ins s) = (if n + length ins < 220 then 0 else 1)"
  using assms
proof (induction ins arbitrary: s n)
  case Nil
  then show ?case by simp
next
  case (Cons i ins)
  from Cons.prems have playing: "gameState s = Playing" and rest: "survives ins (frame i s)"
    by simp_all
  note n = Cons.prems(8)
  note step = frame_timeline [OF playing Cons.prems(2,3) n Cons.prems(5,6,7), of i]
  show ?case
  proof (cases ins)
    case Nil
    with step show ?thesis by simp
  next
    case (Cons j js)
    with Cons.prems(4) have more: "Suc n < 220" by simp
    with step Cons.prems(2,4) have
      "frameCountRef (play ins (frame i s)) = Suc n + length ins \<and>
       map (\<lambda>p. (x p, passed p)) (pipesRef (play ins (frame i s))) = timeline (Suc n + length ins) \<and>
       scoreRef (play ins (frame i s)) = (if Suc n + length ins < 220 then 0 else 1) \<and>
       scoreSt (play ins (frame i s)) = (if Suc n + length ins < 220 then 0 else 1)"
      by (intro Cons.IH [OF rest]) simp_all
    then show ?thesis by simp
  qed
qed

text \<open>
  C2, as the code has it. On a playfield of width 400, in a run from frame counter 0 with
  no pipes and score 0 in which every frame begins in mode \<open>'playing'\<close>, the pipes after
  \<open>n \<le> 220\<close> frames are those of \<open>timeline n\<close>: the first pipe is pushed at \<open>x = 400\<close> in
  frame 100 and moved in that same frame, so it is at \<open>400 - 3 * (n - 99)\<close> after frame
  \<open>n\<close>: at 397 after frame 100, at 100 after frame 199, at 97 after frame 200. Its scoring
  test \<open>x + 60 < 100\<close> first holds in frame 220 (at \<open>x = 37\<close>); both score cells are 0 up to
  frame 219 and 1 after frame 220.
\<close>

theorem first_pipe_timeline:
  assumes "survives ins s" and "width (dimensions s) = 400"
    and "frameCountRef s = 0" and "pipesRef s = []"
    and "scoreRef s = 0" and "scoreSt s = 0"
    and "length ins = n" and "n \<le> 220"
  shows "frameCountRef (play ins s) = n \<and>
         map (\<lambda>p. (x p, passed p)) (pipesRef (play ins s)) = timeline n \<and>
         scoreRef (play ins s) = (if n < 220 then 0 else 1) \<and>
         scoreSt (play ins s) = (if n < 220 then 0 else 1) \<and>
         timeline 99 = [] \<and> timeline 100 = [(397, False)] \<and>
         timeline 199 = [(100, False)] \<and> timeline 200 = [(97, False), (397, False)] \<and>
         timeline 219 = [(40, False), (340, False)] \<and>
         timeline 220 = [(37, True), (337, False)]"
proof -
  from assms(4) have "map (\<lambda>p. (x p, passed p)) (pipesRef s) = timeline 0"
    by (simp add: timeline_def)
  with assms have "frameCountRef (play ins s) = 0 + length ins \<and>
         map (\<lambda>p. (x p, passed p)) (pipesRef (play ins s)) = timeline (0 + length ins) \<and>
         scoreRef (play ins s) = (if 0 + length ins < 220 then 0 else 1) \<and>
         scoreSt (play ins s) = (if 0 + length ins < 220 then 0 else 1)"
    by (intro play_timeline) simp_all
  with assms(7) show ?thesis
    by (simp add: timeline_def)
qed

text \<open>C2 on the 220-frame hovering run, which no collision interrupts.\<close>

theorem first_pipe_timeline_witness:
  "survives demo_run demo_start \<and> width (dimensions demo_start) = 400 \<and>
   frameCountRef demo_start = 0 \<and> pipesRef demo_start = [] \<and>
   scoreRef demo_start = 0 \<and> scoreSt demo_start = 0 \<and>
   length demo_run = 220 \<and> (220::nat) \<le> 220 \<and>
   map (\<lambda>p. (x p, passed p)) (pipesRef (play demo_run demo_start)) = [(37, True), (337, False)] \<and>
   scoreRef (play demo_run demo_start) = 1 \<and> scoreSt (play demo_run demo_start) = 1"
proof -
  have w: "width (dimensions demo_start) = 400"
    by (simp add: demo_start_fields)
  from first_pipe_timeline [OF demo_run_survives w demo_start_fields(3-6) demo_run_length]
    demo_run_survives w demo_start_fields demo_run_length
  show ?thesis by simp
qed

text \<open>
  C2 as stated fails on that run: 100 frames after the spawn frame, after frame 200, the
  first pipe is at 97, not at 100 (it was there one frame earlier); and the score, still 0
  after frames 200 and 219, first becomes 1 in frame 220.
\<close>

theorem first_pipe_counterexample:
  "survives demo_run demo_start \<and>
   map x (pipesRef (play (take 199 demo_run) demo_start)) = [100] \<and>
   map x (pipesRef (play (take 200 demo_run) demo_start)) = [97, 397] \<and>
   scoreRef (play (take 200 demo_run) demo_start) = 0 \<and>
   scoreRef (play (take 219 demo_run) demo_start) = 0 \<and>
   scoreRef (play (take 220 demo_run) demo_start) = 1"
proof -
  have w: "width (dimensions demo_start) = 400"
    by (simp add: demo_start_fields)
  have start: "map (\<lambda>p. (x p, passed p)) (pipesRef demo_start) = timeline 0"
    by (simp add: demo_start_fields timeline_def)
  have at: "map (\<lambda>p. (x p, passed p)) (pipesRef (play (take k demo_run) demo_start)) = timeline k \<and>
            scoreRef (play (take k demo_run) demo_start) = (if k < 220 then 0 else 1)"
    if "k \<le> 220" for k
    using play_timeline [OF survives_take [OF demo_run_survives, of k] w
        demo_start_fields(3) _ start demo_start_fields(5,6)] that
    by (simp add: demo_run_length)
  have xs: "map x ps = map fst (map (\<lambda>p. (x p, passed p)) ps)" for ps :: "pipe list"
    by simp
  from at [of 199] at [of 200] at [of 219] at [of 220] demo_run_survives
  show ?thesis
    unfolding xs by (simp add: timeline_def)
qed

end
